theory Spec2Isabelle
  imports Complex_Main "HOL-Library.Sublist"
begin

section \<open>Text primitives\<close>

text \<open>
  Python strings are modelled as \<open>string\<close> (lists of 8-bit characters) with the ASCII
  reading of \<open>str.lower\<close>, \<open>str.upper\<close>, \<open>str.strip\<close>, \<open>str.split\<close> and of the regular
  expression classes \<open>\s\<close>, \<open>\d\<close>, \<open>\w\<close>: a character outside ASCII is neither a space, a
  digit nor a letter and is left alone by \<open>lower\<close> and \<open>upper\<close>.
\<close>

definition ascii_uppercase :: string where
  "ascii_uppercase = ''ABCDEFGHIJKLMNOPQRSTUVWXYZ''"

definition ascii_lowercase :: string where
  "ascii_lowercase = ''abcdefghijklmnopqrstuvwxyz''"

definition digits :: string where
  "digits = ''0123456789''"

text \<open>The ASCII characters for which \<open>str.isspace\<close> holds: TAB, LF, VT, FF, CR, FS, GS, RS, US, SPACE.\<close>

definition whitespace :: string where
  "whitespace = [CHR 0x09, CHR 0x0A, CHR 0x0B, CHR 0x0C, CHR 0x0D,
                 CHR 0x1C, CHR 0x1D, CHR 0x1E, CHR 0x1F, CHR 0x20]"

definition is_space :: "char \<Rightarrow> bool" where
  "is_space c = (c \<in> set whitespace)"

definition is_digit :: "char \<Rightarrow> bool" where
  "is_digit c = (c \<in> set digits)"

definition is_alpha :: "char \<Rightarrow> bool" where
  "is_alpha c = (c \<in> set (ascii_uppercase @ ascii_lowercase))"

definition is_word :: "char \<Rightarrow> bool" where
  "is_word c = (is_alpha c \<or> is_digit c \<or> c = CHR ''_'')"

definition lower_char :: "char \<Rightarrow> char" where
  "lower_char c = (case map_of (zip ascii_uppercase ascii_lowercase) c of Some d \<Rightarrow> d | None \<Rightarrow> c)"

definition upper_char :: "char \<Rightarrow> char" where
  "upper_char c = (case map_of (zip ascii_lowercase ascii_uppercase) c of Some d \<Rightarrow> d | None \<Rightarrow> c)"

definition lower :: "string \<Rightarrow> string" where
  "lower s = map lower_char s"

definition upper :: "string \<Rightarrow> string" where
  "upper s = map upper_char s"

definition strip :: "string \<Rightarrow> string" where
  "strip s = rev (dropWhile is_space (rev (dropWhile is_space s)))"

text \<open>\<open>str.split()\<close> without a separator: the maximal runs of non-space characters.\<close>

fun split_acc :: "string \<Rightarrow> string \<Rightarrow> string list" where
  "split_acc cur [] = (if cur = [] then [] else [cur])"
| "split_acc cur (c # cs) =
     (if is_space c then (if cur = [] then split_acc [] cs else cur # split_acc [] cs)
      else split_acc (cur @ [c]) cs)"

definition split_ws :: "string \<Rightarrow> string list" where
  "split_ws s = split_acc [] s"

text \<open>\<open>k in t\<close> on strings: \<open>k\<close> occurs in \<open>t\<close> as a contiguous block.\<close>

fun contains :: "string \<Rightarrow> string \<Rightarrow> bool" where
  "contains k [] = (k = [])"
| "contains k (c # cs) = (prefix k (c # cs) \<or> contains k cs)"

text \<open>\<open>any(k in t for k in ks)\<close>.\<close>

definition any_in :: "string list \<Rightarrow> string \<Rightarrow> bool" where
  "any_in ks t = list_ex (\<lambda>k. contains k t) ks"

text \<open>\<open>str(n)\<close> for a non-negative integer, and zero padding as in \<open>%04d\<close> / \<open>%02d\<close>.\<close>

definition digit_char :: "nat \<Rightarrow> char" where
  "digit_char n = digits ! (n mod 10)"

function str_nat :: "nat \<Rightarrow> string" where
  "str_nat n = (if n < 10 then [digit_char n] else str_nat (n div 10) @ [digit_char n])"
  by pat_completeness auto
termination
  by (relation "measure id") auto

definition zfill :: "nat \<Rightarrow> string \<Rightarrow> string" where
  "zfill w s = replicate (w - length s) CHR ''0'' @ s"

definition digit_val :: "char \<Rightarrow> nat" where
  "digit_val c = (case map_of (zip digits [0, 1, 2, 3, 4, 5, 6, 7, 8, 9]) c of Some n \<Rightarrow> n | None \<Rightarrow> 0)"

definition nat_of_digits :: "string \<Rightarrow> nat" where
  "nat_of_digits s = foldl (\<lambda>acc c. 10 * acc + digit_val c) 0 s"

section \<open>Regular expressions\<close>

text \<open>
  The four patterns of \<open>_extract_fields\<close> are kept as regular expressions and run by a
  backtracking matcher with the priorities of Python's \<open>re\<close>: alternatives are tried left
  to right, \<open>*\<close> and \<open>?\<close> are greedy, and \<open>re.search\<close> returns the first match at the
  leftmost starting position. \<open>LitI\<close> is a literal under \<open>re.I\<close>; \<open>Dot\<close> is any character
  but a newline; \<open>WordB\<close> is \<open>\b\<close>; \<open>Grp n\<close> is the n-th capturing group.
\<close>

datatype rx =
    Lit char | LitI char | Dot | Space | Digit | Alpha | WordB | Eps
  | Cat rx rx | Alt rx rx | Star rx | Grp nat rx

text \<open>A matcher configuration: the groups captured so far, the character just before
  the current position (for \<open>\b\<close>) and the text still to be read.\<close>

type_synonym cfg = "(nat \<times> string) list \<times> char option \<times> string"

fun rest :: "cfg \<Rightarrow> string" where
  "rest (caps, prev, s) = s"

fun step_char :: "(char \<Rightarrow> bool) \<Rightarrow> cfg \<Rightarrow> cfg list" where
  "step_char P (caps, prev, []) = []"
| "step_char P (caps, prev, c # cs) = (if P c then [(caps, Some c, cs)] else [])"

definition at_boundary :: "char option \<Rightarrow> string \<Rightarrow> bool" where
  "at_boundary prev s =
     ((case prev of None \<Rightarrow> False | Some p \<Rightarrow> is_word p)
        \<noteq> (case s of [] \<Rightarrow> False | c # _ \<Rightarrow> is_word c))"

text \<open>All the ways a pattern can match at a position, in the order backtracking tries them.\<close>

function rx_match :: "rx \<Rightarrow> cfg \<Rightarrow> cfg list" where
  "rx_match (Lit a) g = step_char (\<lambda>c. c = a) g"
| "rx_match (LitI a) g = step_char (\<lambda>c. lower_char c = lower_char a) g"
| "rx_match Dot g = step_char (\<lambda>c. c \<noteq> CHR 0x0A) g"
| "rx_match Space g = step_char is_space g"
| "rx_match Digit g = step_char is_digit g"
| "rx_match Alpha g = step_char is_alpha g"
| "rx_match WordB g = (if at_boundary (fst (snd g)) (rest g) then [g] else [])"
| "rx_match Eps g = [g]"
| "rx_match (Cat a b) g = concat (map (rx_match b) (rx_match a g))"
| "rx_match (Alt a b) g = rx_match a g @ rx_match b g"
| "rx_match (Star a) g =
     concat (map (\<lambda>g'. if length (rest g') < length (rest g) then rx_match (Star a) g' else [])
                 (rx_match a g)) @ [g]"
| "rx_match (Grp n a) g =
     map (\<lambda>g'. ((n, take (length (rest g) - length (rest g')) (rest g)) # fst g', snd g'))
         (rx_match a g)"
  by pat_completeness auto
termination
  by (relation "measures [\<lambda>(r, g). size r, \<lambda>(r, g). length (rest g)]") auto

text \<open>\<open>re.search\<close>: the groups of the first match, trying the start positions left to right.\<close>

fun rx_search_from :: "rx \<Rightarrow> char option \<Rightarrow> string \<Rightarrow> (nat \<times> string) list option" where
  "rx_search_from r prev [] =
     (case rx_match r ([], prev, []) of [] \<Rightarrow> None | g # _ \<Rightarrow> Some (fst g))"
| "rx_search_from r prev (c # cs) =
     (case rx_match r ([], prev, c # cs) of
        [] \<Rightarrow> rx_search_from r (Some c) cs
      | g # _ \<Rightarrow> Some (fst g))"

definition rx_search :: "rx \<Rightarrow> string \<Rightarrow> (nat \<times> string) list option" where
  "rx_search r s = rx_search_from r None s"

text \<open>\<open>m.group(n)\<close>; every group of the patterns below takes part in every match.\<close>

definition group :: "(nat \<times> string) list \<Rightarrow> nat \<Rightarrow> string" where
  "group caps n = (case map_of caps n of Some g \<Rightarrow> g | None \<Rightarrow> [])"

definition rx_str :: "string \<Rightarrow> rx" where
  "rx_str s = foldr (\<lambda>c r. Cat (Lit c) r) s Eps"

definition rx_str_i :: "string \<Rightarrow> rx" where
  "rx_str_i s = foldr (\<lambda>c r. Cat (LitI c) r) s Eps"

definition Opt :: "rx \<Rightarrow> rx" where
  "Opt r = Alt r Eps"

definition Plus :: "rx \<Rightarrow> rx" where
  "Plus r = Cat r (Star r)"

text \<open>\<^verbatim>\<open>r"return (?:my|an|a)?\s*(.+)"\<close> with \<open>re.I\<close>.\<close>

definition product_rx :: rx where
  "product_rx =
     Cat (rx_str_i ''return '')
    (Cat (Opt (Alt (rx_str_i ''my'') (Alt (rx_str_i ''an'') (rx_str_i ''a''))))
    (Cat (Star Space) (Grp 1 (Plus Dot))))"

text \<open>\<^verbatim>\<open>r"(?:from|at)\s+(.+)"\<close> with \<open>re.I\<close>.\<close>

definition store_rx :: rx where
  "store_rx =
     Cat (Alt (rx_str_i ''from'') (rx_str_i ''at'')) (Cat (Plus Space) (Grp 1 (Plus Dot)))"

text \<open>\<^verbatim>\<open>r"(\d+(?:\.\d+)?)\s*([A-Za-z]{2,5})"\<close>.\<close>

definition price_rx :: rx where
  "price_rx =
     Cat (Grp 1 (Cat (Plus Digit) (Opt (Cat (Lit CHR ''.'') (Plus Digit)))))
    (Cat (Star Space)
         (Grp 2 (Cat Alpha (Cat Alpha (Opt (Cat Alpha (Opt (Cat Alpha (Opt Alpha)))))))))"

text \<open>\<^verbatim>\<open>r"\b(20\d{2}-\d{2}-\d{2})\b"\<close>.\<close>

definition date_rx :: rx where
  "date_rx =
     Cat WordB
    (Cat (Grp 1 (Cat (rx_str ''20'') (Cat Digit (Cat Digit (Cat (Lit CHR ''-'')
           (Cat Digit (Cat Digit (Cat (Lit CHR ''-'') (Cat Digit Digit)))))))))
         WordB)"

section \<open>Dates and numbers\<close>

text \<open>
  A \<open>date\<close> is its proleptic Gregorian ordinal (\<open>date.toordinal()\<close>, day 1 is 0001-01-01),
  so that \<open>d + timedelta(days=n)\<close> is \<open>d + n\<close>. The conversions from and to year, month and
  day follow the standard library's \<open>_ymd2ord\<close> and \<open>_ord2ymd\<close>. The bounds of the
  calendar (years 1 to 9999) are not enforced.
\<close>

type_synonym date = int

definition is_leap :: "int \<Rightarrow> bool" where
  "is_leap y = (y mod 4 = 0 \<and> (y mod 100 \<noteq> 0 \<or> y mod 400 = 0))"

definition days_before_year :: "int \<Rightarrow> int" where
  "days_before_year year = (let y = year - 1 in y * 365 + y div 4 - y div 100 + y div 400)"

definition DAYS_IN_MONTH :: "int list" where
  "DAYS_IN_MONTH = [-1, 31, 28, 31, 30, 31, 30, 31, 31, 30, 31, 30, 31]"

definition DAYS_BEFORE_MONTH :: "int list" where
  "DAYS_BEFORE_MONTH = [-1, 0, 31, 59, 90, 120, 151, 181, 212, 243, 273, 304, 334]"

definition days_in_month :: "int \<Rightarrow> nat \<Rightarrow> int" where
  "days_in_month year month =
     (if month = 2 \<and> is_leap year then 29 else DAYS_IN_MONTH ! month)"

definition days_before_month :: "int \<Rightarrow> nat \<Rightarrow> int" where
  "days_before_month year month =
     DAYS_BEFORE_MONTH ! month + (if month > 2 \<and> is_leap year then 1 else 0)"

definition ymd2ord :: "int \<Rightarrow> nat \<Rightarrow> int \<Rightarrow> date" where
  "ymd2ord year month day = days_before_year year + days_before_month year month + day"

definition ord2ymd :: "date \<Rightarrow> int \<times> nat \<times> int" where
  "ord2ymd ordinal =
     (let n0 = ordinal - 1;
          n400 = n0 div 146097; n1' = n0 mod 146097;
          n100 = n1' div 36524; n2' = n1' mod 36524;
          n4 = n2' div 1461; n3' = n2' mod 1461;
          n1 = n3' div 365; n = n3' mod 365;
          year = n400 * 400 + 1 + n100 * 100 + n4 * 4 + n1
      in if n1 = 4 \<or> n100 = 4 then (year - 1, 12, 31)
         else
           let leapyear = (n1 = 3 \<and> (n4 \<noteq> 24 \<or> n100 = 3));
               month = nat ((n + 50) div 32);
               preceding = DAYS_BEFORE_MONTH ! month + (if month > 2 \<and> leapyear then 1 else 0)
           in if preceding > n
              then let month' = month - 1;
                       preceding' = preceding
                          - (DAYS_IN_MONTH ! month' + (if month' = 2 \<and> leapyear then 1 else 0))
                   in (year, month', n - preceding' + 1)
              else (year, month, n - preceding + 1))"

text \<open>\<open>str(d)\<close> / \<open>d.isoformat()\<close>: \<open>YYYY-MM-DD\<close>.\<close>

definition isoformat :: "date \<Rightarrow> string" where
  "isoformat d =
     (case ord2ymd d of (y, m, dd) \<Rightarrow>
        zfill 4 (str_nat (nat y)) @ ''-'' @ zfill 2 (str_nat m) @ ''-'' @ zfill 2 (str_nat (nat dd)))"

datatype error = ValueError string | RuntimeError string | IndexError | OSError

text \<open>
  \<open>datetime.strptime(s, "%Y-%m-%d").date()\<close> on a string of the shape \<open>dddd-dd-dd\<close>, the
  only shape the caller passes. A month outside 01..12 or a day outside 01..31 does not
  match the format; a day that the month does not have is rejected when the date is
  built. Both raise \<open>ValueError\<close>.
\<close>

definition strptime_ymd :: "string \<Rightarrow> error + date" where
  "strptime_ymd s =
     (let y = int (nat_of_digits (take 4 s));
          m = nat_of_digits (take 2 (drop 5 s));
          d = int (nat_of_digits (take 2 (drop 8 s)))
      in if \<not> (1 \<le> m \<and> m \<le> 12 \<and> 1 \<le> d \<and> d \<le> 31)
         then Inl (ValueError (''time data '' @ [CHR 0x27] @ s @ [CHR 0x27]
                     @ '' does not match format '' @ [CHR 0x27] @ ''%Y-%m-%d'' @ [CHR 0x27]))
         else if y < 1 then Inl (ValueError ''year 0 is out of range'')
         else if d > days_in_month y m then Inl (ValueError ''day is out of range for month'')
         else Inr (ymd2ord y m d))"

text \<open>
  A Python \<open>float\<close> is a binary64 number and is modelled by the rational number it stands
  for. \<open>round64\<close> rounds a rational to the nearest binary64 (ties to even, 53 significant
  bits, least exponent \<open>-1074\<close>), which is what one float operation, the conversion of an
  integer and \<open>float(s)\<close> do to the exact result. Infinities and NaN are outside the model:
  a result beyond the largest binary64 stays a number.
\<close>

function bit_length :: "int \<Rightarrow> nat" where
  "bit_length n = (if n \<le> 0 then 0 else Suc (bit_length (n div 2)))"
  by pat_completeness auto
termination
  by (relation "measure nat") auto

definition pow2 :: "int \<Rightarrow> rat" where
  "pow2 k = (if k \<ge> 0 then 2 ^ nat k else 1 / 2 ^ nat (- k))"

text \<open>For \<open>x > 0\<close>, the integer \<open>k\<close> with \<open>2 ^ k \<le> x < 2 ^ (k + 1)\<close>.\<close>

definition floor_log2 :: "rat \<Rightarrow> int" where
  "floor_log2 x =
     (case quotient_of x of (n, d) \<Rightarrow>
        let k = int (bit_length n) - int (bit_length d)
        in if pow2 k \<le> x then k else k - 1)"

definition round_half_even :: "rat \<Rightarrow> int" where
  "round_half_even r =
     (let f = \<lfloor>r\<rfloor>; d = r - of_int f
      in if d < 1 / 2 then f else if d > 1 / 2 then f + 1 else if even f then f else f + 1)"

definition round64 :: "rat \<Rightarrow> rat" where
  "round64 x =
     (if x = 0 then 0
      else let q = max (floor_log2 \<bar>x\<bar> - 52) (- 1074)
           in sgn x * of_int (round_half_even (\<bar>x\<bar> / pow2 q)) * pow2 q)"

text \<open>The conversion of an integer count to a float.\<close>

definition float_of_nat :: "nat \<Rightarrow> rat" where
  "float_of_nat n = round64 (rat_of_nat n)"

text \<open>\<open>float(s)\<close>, needed only for the digit strings \<open>\d+(\.\d+)?\<close> of the price pattern:
  the decimal value, rounded.\<close>

definition float_of_str :: "string \<Rightarrow> rat" where
  "float_of_str s =
     (let ip = takeWhile (\<lambda>c. c \<noteq> CHR ''.'') s;
          fp = drop 1 (dropWhile (\<lambda>c. c \<noteq> CHR ''.'') s)
      in round64 (of_nat (nat_of_digits ip) + of_nat (nat_of_digits fp) / 10 ^ length fp))"

text \<open>
  The float sum of an array depends on the order in which the library adds, except when
  no addition can round: when the elements are non-negative floats on a common grid
  \<open>1 / D\<close> and their exact total is at most \<open>2 ^ 53 / D\<close>, every partial sum, in any order,
  is a float, and the sum is the exact total. \<open>array_sum lib\<close> is the exact total in that
  case and the library's result \<open>lib xs\<close> otherwise.
\<close>

definition exactly_summable :: "rat list \<Rightarrow> bool" where
  "exactly_summable xs =
     (list_all (\<lambda>x. 0 \<le> x) xs
      \<and> sum_list xs * of_int (fold lcm (map (\<lambda>x. snd (quotient_of x)) xs) 1) \<le> 2 ^ 53)"

definition array_sum :: "(rat list \<Rightarrow> rat) \<Rightarrow> rat list \<Rightarrow> rat" where
  "array_sum lib xs = (if exactly_summable xs then sum_list xs else lib xs)"

section \<open>Data model\<close>

text \<open>
  What the program takes from outside: the clock, and the library functions whose results
  are not computed here. \<open>float_str\<close> is \<open>str\<close> of a float and \<open>fmt_2f\<close> is the format
  \<open>:.2f\<close>; \<open>validation_error_str\<close> is the text of the error that the request schema raises
  for the listed fields; \<open>index_search\<close> is the search of the vector index built over the
  given texts, returning the row of labels for a query and \<open>k\<close>; \<open>excel_outcome\<close> is what
  writing the spreadsheet does, failing or returning the path; \<open>float_sum\<close> is the float
  sum of an array as the numeric library adds it, and \<open>sql_sum\<close> the \<open>SUM\<close> of a float
  column as the database adds it.
\<close>

record env =
  today :: date
  sha256_hexdigest :: "string \<Rightarrow> string"
  float_str :: "rat \<Rightarrow> string"
  fmt_2f :: "rat \<Rightarrow> string"
  validation_error_str :: "string list \<Rightarrow> string"
  index_search :: "string list \<Rightarrow> string \<Rightarrow> int \<Rightarrow> int list"
  excel_outcome :: "error + string"
  float_sum :: "rat list \<Rightarrow> rat"
  sql_sum :: "rat list \<Rightarrow> rat"

text \<open>
  \<open>ConversationState.pending_return\<close>: the dictionary always has the same eleven keys, and
  the values the coordinator stores are strings, floats and dates, so it is a record of
  optional fields (\<open>None\<close> is Python's \<open>None\<close>).
\<close>

record pending =
  product_name :: "string option"
  product_category :: "string option"
  store_name :: "string option"
  city :: "string option"
  country :: "string option"
  purchase_date :: "date option"
  return_date :: "date option"
  reason_raw :: "string option"
  price :: "rat option"
  currency :: "string option"
  discount_pct :: "rat option"

record ConversationState =
  pending_return :: pending
  mode :: "string option"

definition empty_pending :: pending where
  "empty_pending =
     \<lparr>product_name = None, product_category = None, store_name = None, city = None,
      country = None, purchase_date = None, return_date = None, reason_raw = None,
      price = None, currency = None, discount_pct = None\<rparr>"

definition initial_state :: ConversationState where
  "initial_state = \<lparr>pending_return = empty_pending, mode = None\<rparr>"

text \<open>Python truthiness (\<open>not x\<close>): \<open>None\<close>, the empty string and \<open>0.0\<close> are false; a date is
  always true.\<close>

definition truthy_str :: "string option \<Rightarrow> bool" where
  "truthy_str v = (case v of None \<Rightarrow> False | Some s \<Rightarrow> s \<noteq> [])"

definition truthy_float :: "rat option \<Rightarrow> bool" where
  "truthy_float v = (case v of None \<Rightarrow> False | Some x \<Rightarrow> x \<noteq> 0)"

definition truthy_date :: "date option \<Rightarrow> bool" where
  "truthy_date v = (case v of None \<Rightarrow> False | Some d \<Rightarrow> True)"

text \<open>The truth value of \<open>pending_return.get(k)\<close>; an unknown key gives \<open>None\<close>.\<close>

definition field_truthy :: "pending \<Rightarrow> string \<Rightarrow> bool" where
  "field_truthy p k =
     (if k = ''product_name'' then truthy_str (product_name p)
      else if k = ''product_category'' then truthy_str (product_category p)
      else if k = ''store_name'' then truthy_str (store_name p)
      else if k = ''city'' then truthy_str (city p)
      else if k = ''country'' then truthy_str (country p)
      else if k = ''purchase_date'' then truthy_date (purchase_date p)
      else if k = ''return_date'' then truthy_date (return_date p)
      else if k = ''reason_raw'' then truthy_str (reason_raw p)
      else if k = ''price'' then truthy_float (price p)
      else if k = ''currency'' then truthy_str (currency p)
      else if k = ''discount_pct'' then truthy_float (discount_pct p)
      else False)"

record InsertReturnRequest =
  rq_product_name :: string
  rq_product_category :: "string option"
  rq_store_name :: string
  rq_city :: "string option"
  rq_country :: "string option"
  rq_purchase_date :: date
  rq_return_date :: date
  rq_reason_raw :: string
  rq_price :: rat
  rq_currency :: string
  rq_discount_pct :: "rat option"

record InsertReturnResponse =
  return_id :: nat
  rs_product_name :: string
  rs_store_name :: string
  rs_price :: rat
  rs_currency :: string
  message :: string

text \<open>A row of the table \<open>returns\<close> (the column \<open>created_at\<close> is left out).\<close>

record Return =
  row_id :: nat
  row_product_name :: string
  row_product_category :: "string option"
  row_store_name :: string
  row_city :: "string option"
  row_country :: "string option"
  row_purchase_date :: date
  row_return_date :: date
  row_reason_raw :: string
  row_price :: rat
  row_currency :: string
  row_discount_pct :: "rat option"
  dedupe_key :: string

text \<open>
  \<open>InsertReturnRequest(**state.pending_return)\<close>: the schema declares \<open>product_name\<close>,
  \<open>store_name\<close>, \<open>purchase_date\<close>, \<open>return_date\<close>, \<open>reason_raw\<close>, \<open>price\<close> and \<open>currency\<close>
  without \<open>Optional\<close>, so \<open>None\<close> in any of them is a validation error, which is a
  \<open>ValueError\<close>.
\<close>

definition none_fields :: "pending \<Rightarrow> string list" where
  "none_fields p =
     (if product_name p = None then [''product_name''] else []) @
     (if store_name p = None then [''store_name''] else []) @
     (if purchase_date p = None then [''purchase_date''] else []) @
     (if return_date p = None then [''return_date''] else []) @
     (if reason_raw p = None then [''reason_raw''] else []) @
     (if price p = None then [''price''] else []) @
     (if currency p = None then [''currency''] else [])"

definition new_InsertReturnRequest :: "env \<Rightarrow> pending \<Rightarrow> error + InsertReturnRequest" where
  "new_InsertReturnRequest e p =
     (case Option.bind (product_name p) (\<lambda>pn.
           Option.bind (store_name p) (\<lambda>sn.
           Option.bind (purchase_date p) (\<lambda>pd.
           Option.bind (return_date p) (\<lambda>rd.
           Option.bind (reason_raw p) (\<lambda>rr.
           Option.bind (price p) (\<lambda>pr.
           Option.bind (currency p) (\<lambda>cu.
             Some \<lparr>rq_product_name = pn, rq_product_category = product_category p,
                   rq_store_name = sn, rq_city = city p, rq_country = country p,
                   rq_purchase_date = pd, rq_return_date = rd, rq_reason_raw = rr,
                   rq_price = pr, rq_currency = cu, rq_discount_pct = discount_pct p\<rparr>))))))) of
        None \<Rightarrow> Inl (ValueError (validation_error_str e (none_fields p)))
      | Some r \<Rightarrow> Inr r)"

section \<open>Record store: \<open>RetrievalAgent\<close>\<close>

definition raw_key :: "env \<Rightarrow> InsertReturnRequest \<Rightarrow> string" where
  "raw_key e data =
     rq_product_name data @ ''|'' @ rq_store_name data @ ''|'' @
     isoformat (rq_purchase_date data) @ ''|'' @ float_str e (rq_price data) @ ''|'' @
     rq_currency data"

definition generate_dedupe_key :: "env \<Rightarrow> InsertReturnRequest \<Rightarrow> string" where
  "generate_dedupe_key e data = sha256_hexdigest e (raw_key e data)"

text \<open>The table is the list of its rows in insertion order; the integer primary key of a
  new row is one more than the largest key in the table.\<close>

definition next_id :: "Return list \<Rightarrow> nat" where
  "next_id rows = fold max (map row_id rows) 0 + 1"

definition DUPLICATE_MSG :: string where
  "DUPLICATE_MSG = ''Duplicate return detected. This item appears to have already been returned.''"

text \<open>
  \<open>insert_return\<close>: \<open>commit\<close> raises \<open>IntegrityError\<close> exactly when the unique constraint
  \<open>uq_dedupe_key\<close> is violated; the handler rolls back and raises \<open>ValueError\<close>.
\<close>

definition insert_return ::
    "env \<Rightarrow> InsertReturnRequest \<Rightarrow> Return list \<Rightarrow> (error + InsertReturnResponse) \<times> Return list" where
  "insert_return e request rows =
     (let key = generate_dedupe_key e request;
          new_return =
            \<lparr>row_id = next_id rows,
             row_product_name = rq_product_name request,
             row_product_category = rq_product_category request,
             row_store_name = rq_store_name request,
             row_city = rq_city request,
             row_country = rq_country request,
             row_purchase_date = rq_purchase_date request,
             row_return_date = rq_return_date request,
             row_reason_raw = rq_reason_raw request,
             row_price = rq_price request,
             row_currency = rq_currency request,
             row_discount_pct = rq_discount_pct request,
             dedupe_key = key\<rparr>
      in if key \<in> set (map dedupe_key rows)
         then (Inl (ValueError DUPLICATE_MSG), rows)
         else (Inr \<lparr>return_id = row_id new_return,
                    rs_product_name = row_product_name new_return,
                    rs_store_name = row_store_name new_return,
                    rs_price = row_price new_return,
                    rs_currency = row_currency new_return,
                    message = ''Return successfully recorded.''\<rparr>,
               rows @ [new_return]))"

section \<open>Forecaster: \<open>ForecastingAgent\<close>\<close>

record ForecastRequest =
  target :: string
  horizon_days :: int

record ForecastPoint =
  fp_date :: date
  predicted_value :: rat

record ForecastResponse =
  fr_target :: string
  fr_horizon_days :: int
  predictions :: "ForecastPoint list"
  model_used :: string
  metric :: string
  metric_value :: rat

text \<open>\<open>_load_daily_series\<close>: the frame with the columns \<open>date\<close> and \<open>count\<close>, one line per
  distinct return date, sorted by date, as a list of pairs.\<close>

definition load_daily_series :: "Return list \<Rightarrow> (date \<times> nat) list" where
  "load_daily_series table =
     (let rows = map row_return_date table
      in if rows = [] then []
         else map (\<lambda>d. (d, count_list rows d)) (sort (remdups rows)))"

text \<open>\<open>Series.mean()\<close> of a column of integer counts: the counts as floats, their float
  sum, divided by their number. (The mean of no values, NaN in the library, is not
  reached: the window is never empty.)\<close>

definition series_mean :: "env \<Rightarrow> nat list \<Rightarrow> rat" where
  "series_mean e cs =
     round64 (array_sum (float_sum e) (map float_of_nat cs) / rat_of_nat (length cs))"

text \<open>\<open>np.mean\<close> of a float array.\<close>

definition np_mean :: "env \<Rightarrow> rat list \<Rightarrow> rat" where
  "np_mean e xs = round64 (array_sum (float_sum e) xs / rat_of_nat (length xs))"

definition forecast :: "env \<Rightarrow> ForecastRequest \<Rightarrow> Return list \<Rightarrow> error + ForecastResponse" where
  "forecast e request table =
     (let df = load_daily_series table
      in if df = [] then Inl (ValueError ''Not enough data to generate forecast.'')
         else
           let window = min 7 (length df);
               avg_value = series_mean e (map snd (drop (length df - window) df));
               date_max = fold max (map fst df) (fst (hd df));
               future_dates = map (\<lambda>i. date_max + i) [1 .. horizon_days request];
               preds = map (\<lambda>d. \<lparr>fp_date = d, predicted_value = avg_value\<rparr>) future_dates;
               actual = map snd (drop (length df - window) df);
               predicted = replicate (length actual) avg_value;
               mae = np_mean e (map (\<lambda>(a, p). \<bar>round64 (float_of_nat a - p)\<bar>) (zip actual predicted))
           in Inr \<lparr>fr_target = target request,
                   fr_horizon_days = horizon_days request,
                   predictions = preds,
                   model_used = ''7-day moving average'',
                   metric = ''MAE'',
                   metric_value = mae\<rparr>)"

section \<open>Semantic index: \<open>RAGRetriever\<close>\<close>

text \<open>The retriever's fields: \<open>index\<close> is \<open>None\<close> or the index built over the listed
  texts, \<open>records\<close> the rows it was built from.\<close>

record RAGRetriever =
  index :: "string list option"
  records :: "Return list"

record RetrievalQuery =
  query :: string
  top_k :: int

record Metadata =
  md_product :: string
  md_store :: string
  md_price :: rat
  md_currency :: string
  md_return_date :: string

record RetrievalResult =
  content :: string
  metadata :: Metadata

definition new_RAGRetriever :: RAGRetriever where
  "new_RAGRetriever = \<lparr>index = None, records = []\<rparr>"

definition record_text :: "env \<Rightarrow> Return \<Rightarrow> string" where
  "record_text e r =
     ''Product: '' @ row_product_name r @ ''. '' @
     ''Store: '' @ row_store_name r @ ''. '' @
     ''Reason: '' @ row_reason_raw r @ ''. '' @
     ''Price: '' @ float_str e (row_price r) @ '' '' @ row_currency r @ ''.''"

definition build_index :: "env \<Rightarrow> Return list \<Rightarrow> RAGRetriever \<Rightarrow> RAGRetriever" where
  "build_index e table rag =
     (let texts = map (record_text e) table;
          rag1 = rag\<lparr>records := table\<rparr>
      in if texts = [] then rag1
         else rag1\<lparr>index := Some texts\<rparr>)"

text \<open>\<open>xs[i]\<close>: a negative index counts from the end, an index out of range raises.\<close>

definition py_index :: "'a list \<Rightarrow> int \<Rightarrow> error + 'a" where
  "py_index xs i =
     (let n = int (length xs); j = (if i < 0 then n + i else i)
      in if 0 \<le> j \<and> j < n then Inr (xs ! nat j) else Inl IndexError)"

definition result_of :: "Return \<Rightarrow> RetrievalResult" where
  "result_of r =
     \<lparr>content = row_reason_raw r,
      metadata = \<lparr>md_product = row_product_name r, md_store = row_store_name r,
                  md_price = row_price r, md_currency = row_currency r,
                  md_return_date = isoformat (row_return_date r)\<rparr>\<rparr>"

fun collect_results :: "Return list \<Rightarrow> int list \<Rightarrow> error + RetrievalResult list" where
  "collect_results recs [] = Inr []"
| "collect_results recs (idx # idxs) =
     (case py_index recs idx of
        Inl err \<Rightarrow> Inl err
      | Inr r \<Rightarrow> (case collect_results recs idxs of
                    Inl err \<Rightarrow> Inl err
                  | Inr rs \<Rightarrow> Inr (result_of r # rs)))"

definition retrieve :: "env \<Rightarrow> RetrievalQuery \<Rightarrow> RAGRetriever \<Rightarrow> error + RetrievalResult list" where
  "retrieve e q rag =
     (case index rag of
        None \<Rightarrow> Inl (RuntimeError ''RAG index not built. Call build_index() first.'')
      | Some texts \<Rightarrow> collect_results (records rag) (index_search e texts (query q) (top_k q)))"

section \<open>Aggregator: \<open>ReportAgent\<close>\<close>

record ReportRequest =
  rp_product_name :: "string option"
  start_date :: "date option"
  end_date :: "date option"
  generate_excel :: bool

record ReportSummary =
  total_returns :: nat
  total_loss :: rat
  trend :: string
  insight :: string
  excel_path :: "string option"

definition resolve_date_range :: "env \<Rightarrow> date option \<Rightarrow> date option \<Rightarrow> date \<times> date" where
  "resolve_date_range e start end' =
     (let end1 = (case end' of None \<Rightarrow> today e | Some d \<Rightarrow> d);
          start1 = (case start of None \<Rightarrow> end1 - 13 | Some d \<Rightarrow> d)
      in (start1, end1))"

text \<open>The product filter is \<open>ILIKE '%name%'\<close>, read as a case-insensitive substring test
  (wildcard characters inside the name are not interpreted). \<open>COALESCE(SUM(price), 0.0)\<close>
  is the float sum of the prices, and \<open>0.0\<close> over no rows.\<close>

definition aggregate_window ::
    "env \<Rightarrow> Return list \<Rightarrow> date \<Rightarrow> date \<Rightarrow> string option \<Rightarrow> nat \<times> rat" where
  "aggregate_window e table start_d end_d pname =
     (let q = filter (\<lambda>r. row_return_date r \<ge> start_d \<and> row_return_date r \<le> end_d) table;
          q1 = (case pname of
                  None \<Rightarrow> q
                | Some n \<Rightarrow> if n = [] then q
                            else filter (\<lambda>r. contains (lower n) (lower (row_product_name r))) q)
      in (length q1, array_sum (sql_sum e) (map row_price q1)))"

definition compute_trend :: "nat \<Rightarrow> nat \<Rightarrow> string" where
  "compute_trend current previous =
     (if previous = 0 \<and> current = 0 then ''flat''
      else if previous = 0 \<and> current > 0 then ''increasing''
      else if current > previous then ''increasing''
      else if current < previous then ''decreasing''
      else ''flat'')"

definition build_insight ::
    "env \<Rightarrow> string option \<Rightarrow> date \<Rightarrow> date \<Rightarrow> nat \<Rightarrow> rat \<Rightarrow> nat \<Rightarrow> rat \<Rightarrow> string \<Rightarrow> string" where
  "build_insight e pname start_d end_d tot_returns tot_loss prev_returns prev_loss tr =
     (let scope = (case pname of
                     None \<Rightarrow> []
                   | Some n \<Rightarrow> if n = [] then [] else ''for '' @ [CHR 0x27] @ n @ [CHR 0x27] @ '' '');
          period = isoformat start_d @ '' to '' @ isoformat end_d
      in if tr = ''increasing'' then
           ''Returns '' @ scope @ ''are increasing in '' @ period @ '' ''
           @ ''('' @ str_nat tot_returns @ '' vs '' @ str_nat prev_returns @ '' in the previous period). ''
           @ ''Estimated loss is '' @ fmt_2f e tot_loss @ '' vs '' @ fmt_2f e prev_loss @ '' previously. ''
           @ ''Consider checking store handling, product batch quality, and common defect reasons.''
         else if tr = ''decreasing'' then
           ''Returns '' @ scope @ ''are decreasing in '' @ period @ '' ''
           @ ''('' @ str_nat tot_returns @ '' vs '' @ str_nat prev_returns @ '' previously). ''
           @ ''Estimated loss is '' @ fmt_2f e tot_loss @ '' vs '' @ fmt_2f e prev_loss @ ''. ''
           @ ''This suggests recent mitigations may be working.''
         else
           ''Returns '' @ scope @ ''are stable in '' @ period @ '' ''
           @ ''('' @ str_nat tot_returns @ '' vs '' @ str_nat prev_returns @ '' previously). ''
           @ ''Estimated loss is '' @ fmt_2f e tot_loss @ '' vs '' @ fmt_2f e prev_loss @ ''. ''
           @ ''Monitor for emerging spikes in specific stores/products.'')"

definition generate_report :: "env \<Rightarrow> ReportRequest \<Rightarrow> Return list \<Rightarrow> error + ReportSummary" where
  "generate_report e request table =
     (case resolve_date_range e (start_date request) (end_date request) of (start_d, end_d) \<Rightarrow>
      case aggregate_window e table start_d end_d (rp_product_name request) of (tot_returns, tot_loss) \<Rightarrow>
        let window_days = (end_d - start_d) + 1;
            prev_end = start_d - 1;
            prev_start = prev_end - (window_days - 1)
        in case aggregate_window e table prev_start prev_end (rp_product_name request) of
             (prev_returns, prev_loss) \<Rightarrow>
               let tr = compute_trend tot_returns prev_returns;
                   ins = build_insight e (rp_product_name request) start_d end_d
                           tot_returns tot_loss prev_returns prev_loss tr
               in if generate_excel request
                  then (case excel_outcome e of
                          Inl err \<Rightarrow> Inl err
                        | Inr path \<Rightarrow>
                            Inr \<lparr>total_returns = tot_returns, total_loss = tot_loss, trend = tr,
                                 insight = ins, excel_path = Some path\<rparr>)
                  else Inr \<lparr>total_returns = tot_returns, total_loss = tot_loss, trend = tr,
                            insight = ins, excel_path = None\<rparr>)"

section \<open>Dialogue coordinator\<close>

text \<open>What the coordinator holds besides the session: the table behind the shared database
  session and its own retriever.\<close>

record world =
  db :: "Return list"
  rag :: RAGRetriever

definition classify_intent :: "string \<Rightarrow> string" where
  "classify_intent text =
     (let t = lower text
      in if any_in [''forecast'', ''predict'', ''next''] t then ''forecast''
         else if any_in [''report'', ''analysis'', ''how many'', ''trend'', ''excel''] t then ''analytics''
         else if any_in [''return'', ''refund''] t then ''insert_return''
         else ''rag'')"

definition required :: "string list" where
  "required = [''product_name'', ''store_name'', ''purchase_date'', ''reason_raw'', ''price'', ''currency'']"

definition missing_fields :: "ConversationState \<Rightarrow> string list" where
  "missing_fields state = filter (\<lambda>k. \<not> field_truthy (pending_return state) k) required"

definition ask_next :: "string list \<Rightarrow> string" where
  "ask_next missing =
     (if ''product_name'' \<in> set missing then ''What product are you returning?''
      else if ''store_name'' \<in> set missing then ''Which store did you buy it from?''
      else if ''purchase_date'' \<in> set missing
        then ''When did you purchase it? (YYYY-MM-DD or '' @ [CHR 0x27] @ ''last week'' @ [CHR 0x27] @ '')''
      else if ''return_date'' \<in> set missing then ''When is the return date?''
      else if ''reason_raw'' \<in> set missing then ''What is the reason for return?''
      else if ''price'' \<in> set missing \<or> ''currency'' \<in> set missing
        then ''What was the price and currency?''
      else ''Please provide the missing details.'')"

text \<open>The six blocks of \<open>_extract_fields\<close>, in the order of the source.\<close>

definition extract_product :: "string \<Rightarrow> pending \<Rightarrow> pending" where
  "extract_product text p =
     (if \<not> truthy_str (product_name p) then
        (case rx_search product_rx text of
           Some m \<Rightarrow> p\<lparr>product_name := Some (strip (group m 1))\<rparr>
         | None \<Rightarrow> if length (split_ws text) \<le> 4 then p\<lparr>product_name := Some (strip text)\<rparr>
                   else p)
      else p)"

definition extract_store :: "string \<Rightarrow> pending \<Rightarrow> pending" where
  "extract_store text p =
     (if \<not> truthy_str (store_name p) then
        (case rx_search store_rx text of
           Some m \<Rightarrow> p\<lparr>store_name := Some (strip (group m 1))\<rparr>
         | None \<Rightarrow>
             if truthy_str (product_name p) \<and> length (split_ws text) \<le> 5
                \<and> \<not> any_in [''working'', ''broken'', ''week'', ''today''] (lower text)
             then p\<lparr>store_name := Some (strip text)\<rparr>
             else p)
      else p)"

definition extract_reason :: "string \<Rightarrow> pending \<Rightarrow> pending" where
  "extract_reason text p =
     (if \<not> truthy_str (reason_raw p) then
        (if any_in [''not working'', ''broken'', ''defective''] (lower text)
         then p\<lparr>reason_raw := Some (strip text)\<rparr> else p)
      else p)"

definition extract_price :: "string \<Rightarrow> pending \<Rightarrow> pending" where
  "extract_price text p =
     (if \<not> truthy_float (price p) \<or> \<not> truthy_str (currency p) then
        (case rx_search price_rx text of
           Some m \<Rightarrow> p\<lparr>price := Some (float_of_str (group m 1)), currency := Some (upper (group m 2))\<rparr>
         | None \<Rightarrow> p)
      else p)"

definition extract_purchase_date :: "env \<Rightarrow> string \<Rightarrow> pending \<Rightarrow> error + pending" where
  "extract_purchase_date e text p =
     (if \<not> truthy_date (purchase_date p) then
        (if contains ''last week'' (lower text) then Inr (p\<lparr>purchase_date := Some (today e - 7)\<rparr>)
         else (case rx_search date_rx text of
                 Some m \<Rightarrow> (case strptime_ymd (group m 1) of
                              Inl err \<Rightarrow> Inl err
                            | Inr d \<Rightarrow> Inr (p\<lparr>purchase_date := Some d\<rparr>))
               | None \<Rightarrow> Inr p))
      else Inr p)"

definition extract_return_date :: "env \<Rightarrow> string \<Rightarrow> pending \<Rightarrow> pending" where
  "extract_return_date e text p =
     (if \<not> truthy_date (return_date p) then
        (if contains ''today'' (lower text) then p\<lparr>return_date := Some (today e)\<rparr> else p)
      else p)"

text \<open>\<open>_extract_fields\<close> updates the session in place; when parsing the date raises, the
  fields set by the earlier blocks stay set. The result is the error, if any, and the
  session as the call leaves it.\<close>

definition extract_fields :: "env \<Rightarrow> string \<Rightarrow> ConversationState \<Rightarrow> error option \<times> ConversationState" where
  "extract_fields e text state =
     (let p4 = extract_price text (extract_reason text (extract_store text
                 (extract_product text (pending_return state))))
      in case extract_purchase_date e text p4 of
           Inl err \<Rightarrow> (Some err, state\<lparr>pending_return := p4\<rparr>)
         | Inr p5 \<Rightarrow> (None, state\<lparr>pending_return := extract_return_date e text p5\<rparr>))"

text \<open>\<open>{k: None for k in state.pending_return}\<close> and \<open>state.mode = None\<close>.\<close>

definition reset :: "ConversationState \<Rightarrow> ConversationState" where
  "reset state = state\<lparr>pending_return := empty_pending, mode := None\<rparr>"

text \<open>UTF-8 of the three pictographs that open the replies.\<close>

definition CHECK_MARK :: string where
  "CHECK_MARK = [CHR 0xE2, CHR 0x9C, CHR 0x85]"

definition BAR_CHART :: string where
  "BAR_CHART = [CHR 0xF0, CHR 0x9F, CHR 0x93, CHR 0x8A]"

definition CHART_UP :: string where
  "CHART_UP = [CHR 0xF0, CHR 0x9F, CHR 0x93, CHR 0x88]"

definition recorded_msg :: "env \<Rightarrow> InsertReturnResponse \<Rightarrow> string" where
  "recorded_msg e resp =
     CHECK_MARK @ '' Return recorded: '' @ rs_product_name resp @ '' from '' @ rs_store_name resp @ '' ''
     @ ''('' @ float_str e (rs_price resp) @ '' '' @ rs_currency resp @ ''). Return ID: ''
     @ str_nat (return_id resp)"

fun str_error :: "error \<Rightarrow> string" where
  "str_error (ValueError m) = m"
| "str_error (RuntimeError m) = m"
| "str_error IndexError = ''list index out of range''"
| "str_error OSError = []"

text \<open>
  Every handler returns what the call does to the caller: \<open>Inr\<close> the reply or \<open>Inl\<close> the
  exception that leaves \<open>handle_message\<close>, the session object as the call leaves it (it is
  updated in place, so the caller sees its fields also after an exception), and the
  coordinator's own state.
\<close>

type_synonym outcome = "(error + string) \<times> ConversationState \<times> world"

definition handle_insert_flow :: "env \<Rightarrow> string \<Rightarrow> ConversationState \<Rightarrow> world \<Rightarrow> outcome" where
  "handle_insert_flow e text state w =
     (case extract_fields e text state of
        (Some err, state1) \<Rightarrow> (Inl err, state1, w)
      | (None, state1) \<Rightarrow>
          let missing = missing_fields state1
          in if missing \<noteq> [] then (Inr (ask_next missing), state1, w)
             else (case new_InsertReturnRequest e (pending_return state1) of
                     Inl err \<Rightarrow> (Inr (str_error err), reset state1, w)
                   | Inr req \<Rightarrow>
                       (case insert_return e req (db w) of
                          (Inl err, table) \<Rightarrow> (Inr (str_error err), reset state1, w\<lparr>db := table\<rparr>)
                        | (Inr resp, table) \<Rightarrow>
                            (Inr (recorded_msg e resp), reset state1, w\<lparr>db := table\<rparr>))))"

definition handle_analytics :: "env \<Rightarrow> string \<Rightarrow> ConversationState \<Rightarrow> world \<Rightarrow> outcome" where
  "handle_analytics e text state w =
     (case generate_report e
             \<lparr>rp_product_name = None, start_date = None, end_date = None, generate_excel = True\<rparr>
             (db w) of
        Inl err \<Rightarrow> (Inl err, state, w)
      | Inr resp \<Rightarrow>
          (Inr (BAR_CHART @ '' Returns: '' @ str_nat (total_returns resp) @ [CHR 0x0A]
                @ ''Loss: '' @ float_str e (total_loss resp) @ [CHR 0x0A]
                @ ''Trend: '' @ trend resp @ [CHR 0x0A] @ insight resp),
           state\<lparr>mode := None\<rparr>, w))"

definition handle_forecast :: "env \<Rightarrow> string \<Rightarrow> ConversationState \<Rightarrow> world \<Rightarrow> outcome" where
  "handle_forecast e text state w =
     (case forecast e \<lparr>target = ''daily_return_volume'', horizon_days = 14\<rparr> (db w) of
        Inl err \<Rightarrow> (Inl err, state, w)
      | Inr resp \<Rightarrow>
          (Inr (CHART_UP @ '' Forecast ('' @ model_used resp @ '')'' @ [CHR 0x0A]
                @ ''MAE: '' @ float_str e (metric_value resp)),
           state\<lparr>mode := None\<rparr>, w))"

definition join_lines :: "string list \<Rightarrow> string" where
  "join_lines ls = (case ls of [] \<Rightarrow> [] | l # ls' \<Rightarrow> foldl (\<lambda>acc x. acc @ [CHR 0x0A] @ x) l ls')"

definition handle_rag :: "env \<Rightarrow> string \<Rightarrow> ConversationState \<Rightarrow> world \<Rightarrow> outcome" where
  "handle_rag e text state w =
     (let w1 = w\<lparr>rag := build_index e (db w) (rag w)\<rparr>
      in case retrieve e \<lparr>query = text, top_k = 3\<rparr> (rag w1) of
           Inl err \<Rightarrow> (Inl err, state, w1)
         | Inr res \<Rightarrow>
             if res = [] then (Inr ''No relevant returns found.'', state\<lparr>mode := None\<rparr>, w1)
             else (Inr (join_lines (map (\<lambda>r. ''- '' @ content r) res)), state\<lparr>mode := None\<rparr>, w1))"

definition handle_message :: "env \<Rightarrow> string \<Rightarrow> ConversationState \<Rightarrow> world \<Rightarrow> outcome" where
  "handle_message e user_text state w =
     (let text = strip user_text
      in if mode state = Some ''insert_return'' then handle_insert_flow e text state w
         else
           let intent = classify_intent text;
               state1 = state\<lparr>mode := Some intent\<rparr>
           in if intent = ''forecast'' then handle_forecast e text state1 w
              else if intent = ''analytics'' then handle_analytics e text state1 w
              else if intent = ''insert_return'' then handle_insert_flow e text state1 w
              else handle_rag e text state1 w)"

text \<open>A conversation: the messages are handled in order, each on the session and the
  coordinator state the previous one left; the replies are collected. An exception ends
  the conversation.\<close>

fun run_dialogue ::
    "env \<Rightarrow> string list \<Rightarrow> ConversationState \<Rightarrow> world \<Rightarrow> (error + string list) \<times> ConversationState \<times> world" where
  "run_dialogue e [] state w = (Inr [], state, w)"
| "run_dialogue e (m # ms) state w =
     (case handle_message e m state w of
        (Inl err, state1, w1) \<Rightarrow> (Inl err, state1, w1)
      | (Inr reply, state1, w1) \<Rightarrow>
          (case run_dialogue e ms state1 w1 of
             (Inl err, state2, w2) \<Rightarrow> (Inl err, state2, w2)
           | (Inr replies, state2, w2) \<Rightarrow> (Inr (reply # replies), state2, w2)))"

section \<open>Sample inputs\<close>

text \<open>A concrete environment for running the definitions: the fifteenth of January 2025
  as today, the identity in place of the hash, plain renderings of whole numbers, and
  sums that round once.\<close>

definition demo_float_str :: "rat \<Rightarrow> string" where
  "demo_float_str r = str_nat (nat \<lfloor>r\<rfloor>) @ ''.0''"

definition demo_env :: env where
  "demo_env =
     \<lparr>today = 739266,
      sha256_hexdigest = (\<lambda>s. s),
      float_str = demo_float_str,
      fmt_2f = (\<lambda>r. str_nat (nat \<lfloor>r\<rfloor>) @ ''.00''),
      validation_error_str = (\<lambda>fs. ''validation error for InsertReturnRequest: '' @ concat fs),
      index_search = (\<lambda>texts q k. map (\<lambda>i. if i < int (length texts) then i else -1) [0 .. k - 1]),
      excel_outcome = Inr ''reports/returns_report_all.xlsx'',
      float_sum = (\<lambda>xs. round64 (sum_list xs)),
      sql_sum = (\<lambda>xs. round64 (sum_list xs))\<rparr>"

definition empty_world :: world where
  "empty_world = \<lparr>db = [], rag = new_RAGRetriever\<rparr>"

text \<open>The request of \<open>retr_test.py\<close>.\<close>

definition demo_request :: InsertReturnRequest where
  "demo_request =
     \<lparr>rq_product_name = ''Apple TV'', rq_product_category = Some ''Streaming Device'',
      rq_store_name = ''Taipei 101 Apple Store'', rq_city = Some ''Taipei'',
      rq_country = Some ''Taiwan'', rq_purchase_date = 739256, rq_return_date = 739261,
      rq_reason_raw = ''USB port not working'', rq_price = 3300, rq_currency = ''NTD'',
      rq_discount_pct = Some 10\<rparr>"

text \<open>A session in the middle of the collection flow, with only the product known.\<close>

definition collecting_iphone :: ConversationState where
  "collecting_iphone =
     \<lparr>pending_return = empty_pending\<lparr>product_name := Some ''iPhone''\<rparr>,
      mode = Some ''insert_return''\<rparr>"

text \<open>Sessions of the collection flow: everything required but the price; the same after
  the message \<open>0 USD\<close>; the same with a return date; and with a price of fifty dollars.
  The last definition is the conversation of the specification's example.\<close>

definition awaiting_price :: ConversationState where
  "awaiting_price =
     \<lparr>pending_return = empty_pending\<lparr>product_name := Some ''iPhone'', store_name := Some ''Target'',
        purchase_date := Some 739252, reason_raw := Some ''not working''\<rparr>,
      mode = Some ''insert_return''\<rparr>"

definition zero_priced :: ConversationState where
  "zero_priced =
     awaiting_price\<lparr>pending_return :=
        (pending_return awaiting_price)\<lparr>price := Some 0, currency := Some ''USD''\<rparr>\<rparr>"


definition return_dialogue :: "string list" where
  "return_dialogue = [''I want to return my iPhone'', ''Target'', ''2025-01-01'', ''not working'', ''50 USD'']"

definition fully_collected :: ConversationState where
  "fully_collected =
     awaiting_price\<lparr>pending_return :=
        (pending_return awaiting_price)\<lparr>price := Some 50, currency := Some ''USD''\<rparr>\<rparr>"

text \<open>A table of five returns, all returned on the tenth of January 2025.\<close>

definition demo_row :: "nat \<Rightarrow> date \<Rightarrow> Return" where
  "demo_row n d =
     \<lparr>row_id = n, row_product_name = ''Apple TV'', row_product_category = None,
      row_store_name = ''Taipei 101 Apple Store'', row_city = None, row_country = None,
      row_purchase_date = 739256, row_return_date = d, row_reason_raw = ''USB port not working'',
      row_price = 3300, row_currency = ''NTD'', row_discount_pct = None,
      dedupe_key = str_nat n\<rparr>"


text \<open>Five returns over three consecutive days: one, two and two.\<close>

definition three_days :: "Return list" where
  "three_days = [demo_row 1 739259, demo_row 2 739260, demo_row 3 739260,
                 demo_row 4 739261, demo_row 5 739261]"

section \<open>Properties of the text primitives\<close>

lemma contains_iff_sublist: "contains k t \<longleftrightarrow> sublist k t"
  by (induction t) (auto simp: sublist_Cons_right)

section \<open>The record store\<close>

text \<open>
  C9: the fingerprint is a function of the ordered tuple (product_name, store_name,
  purchase_date, price, currency) alone: two insert requests that agree on these five
  fields get the same fingerprint, whatever their other fields are, and the text that is
  hashed is the five values as they are given, joined by a bar, with no change of case and
  no trimming.
\<close>

theorem dedupe_key_deterministic:
  assumes "rq_product_name a = rq_product_name b" and "rq_store_name a = rq_store_name b"
    and "rq_purchase_date a = rq_purchase_date b" and "rq_price a = rq_price b"
    and "rq_currency a = rq_currency b"
  shows "generate_dedupe_key e a = generate_dedupe_key e b
       \<and> generate_dedupe_key e a =
           sha256_hexdigest e (rq_product_name a @ ''|'' @ rq_store_name a @ ''|''
             @ isoformat (rq_purchase_date a) @ ''|'' @ float_str e (rq_price a) @ ''|''
             @ rq_currency a)"
  using assms by (simp add: generate_dedupe_key_def raw_key_def)

theorem dedupe_key_deterministic_witness:
  "rq_product_name demo_request = rq_product_name (demo_request\<lparr>rq_reason_raw := ''changed my mind'', rq_return_date := 739262, rq_city := None\<rparr>)
   \<and> generate_dedupe_key demo_env demo_request
     = generate_dedupe_key demo_env (demo_request\<lparr>rq_reason_raw := ''changed my mind'', rq_return_date := 739262, rq_city := None\<rparr>)"
  using dedupe_key_deterministic [of demo_request "demo_request\<lparr>rq_reason_raw := ''changed my mind'', rq_return_date := 739262, rq_city := None\<rparr>" demo_env]
  by simp

text \<open>Since the values go into the hashed text unchanged, two requests that differ only in
  the spelling of the product name (its case, its spaces) are hashed from different texts.\<close>

lemma raw_key_keeps_product_name:
  assumes "raw_key e a = raw_key e b" and "rq_store_name a = rq_store_name b"
    and "rq_purchase_date a = rq_purchase_date b" and "rq_price a = rq_price b"
    and "rq_currency a = rq_currency b"
  shows "rq_product_name a = rq_product_name b"
  using assms by (simp add: raw_key_def)

lemma insert_return_fresh:
  assumes "generate_dedupe_key e r \<notin> set (map dedupe_key table)"
  shows "\<exists>resp row. insert_return e r table = (Inr resp, table @ [row])
           \<and> dedupe_key row = generate_dedupe_key e r \<and> return_id resp = row_id row
           \<and> row_id row = next_id table"
  using assms by (simp add: insert_return_def Let_def)

lemma insert_return_dup:
  assumes "generate_dedupe_key e r \<in> set (map dedupe_key table)"
  shows "insert_return e r table = (Inl (ValueError DUPLICATE_MSG), table)"
  using assms by (simp add: insert_return_def Let_def)

text \<open>
  C5: when the table does not hold the fingerprint of a request, inserting it succeeds and
  appends one row; inserting afterwards any request with the same (product_name,
  store_name, purchase_date, price, currency) fails with the duplicate error and leaves
  the table as it was, so that exactly one row carries the fingerprint, and a table whose
  fingerprints were pairwise different stays so.
\<close>

theorem insert_twice_duplicate:
  assumes fresh: "generate_dedupe_key e r1 \<notin> set (map dedupe_key table)"
    and same: "rq_product_name r2 = rq_product_name r1" "rq_store_name r2 = rq_store_name r1"
      "rq_purchase_date r2 = rq_purchase_date r1" "rq_price r2 = rq_price r1"
      "rq_currency r2 = rq_currency r1"
  shows "\<exists>resp row.
           insert_return e r1 table = (Inr resp, table @ [row])
         \<and> insert_return e r2 (table @ [row]) = (Inl (ValueError DUPLICATE_MSG), table @ [row])
         \<and> length (filter (\<lambda>x. dedupe_key x = generate_dedupe_key e r1) (table @ [row])) = 1
         \<and> (distinct (map dedupe_key table) \<longrightarrow> distinct (map dedupe_key (table @ [row])))"
proof -
  from insert_return_fresh [OF fresh] obtain resp row where
    ins: "insert_return e r1 table = (Inr resp, table @ [row])"
    and key: "dedupe_key row = generate_dedupe_key e r1"
    by blast
  have k2: "generate_dedupe_key e r2 = generate_dedupe_key e r1"
    using same by (simp add: generate_dedupe_key_def raw_key_def)
  have "generate_dedupe_key e r2 \<in> set (map dedupe_key (table @ [row]))"
    using key k2 by simp
  then have dup: "insert_return e r2 (table @ [row]) = (Inl (ValueError DUPLICATE_MSG), table @ [row])"
    by (rule insert_return_dup)
  have none: "filter (\<lambda>x. dedupe_key x = generate_dedupe_key e r1) table = []"
    using fresh by (induction table) auto
  have cnt: "length (filter (\<lambda>x. dedupe_key x = generate_dedupe_key e r1) (table @ [row])) = 1"
    using none key by simp
  have dist: "distinct (map dedupe_key table) \<longrightarrow> distinct (map dedupe_key (table @ [row]))"
    using fresh key by auto
  from ins dup cnt dist show ?thesis by blast
qed

theorem insert_twice_duplicate_witness:
  "generate_dedupe_key demo_env demo_request \<notin> set (map dedupe_key [])
   \<and> (\<exists>resp row.
           insert_return demo_env demo_request [] = (Inr resp, [row])
         \<and> insert_return demo_env (demo_request\<lparr>rq_reason_raw := ''changed my mind''\<rparr>) [row]
             = (Inl (ValueError DUPLICATE_MSG), [row])
         \<and> length (filter (\<lambda>x. dedupe_key x = generate_dedupe_key demo_env demo_request) [row]) = 1)"
  using insert_twice_duplicate [of demo_env demo_request "[]" "demo_request\<lparr>rq_reason_raw := ''changed my mind''\<rparr>"]
  by simp

section \<open>The semantic index\<close>

text \<open>
  C2: searching a retriever whose index was never built fails with the error that the
  index is not built. After a rebuild over an empty table the code does not return an
  empty result: \<open>build_index\<close> returns before it assigns the index, so the search that
  follows fails with the same error.
\<close>

theorem search_needs_index:
  "retrieve e q new_RAGRetriever = Inl (RuntimeError ''RAG index not built. Call build_index() first.'')
   \<and> retrieve e q (build_index e [] new_RAGRetriever)
       = Inl (RuntimeError ''RAG index not built. Call build_index() first.'')"
  by (simp add: retrieve_def build_index_def new_RAGRetriever_def)

section \<open>The coordinator's state machine\<close>

lemma extract_fields_mode: "mode (snd (extract_fields e t s)) = mode s"
  by (simp add: extract_fields_def Let_def split: sum.splits)

lemma handle_insert_flow_mode:
  "mode (fst (snd (handle_insert_flow e t s w))) = mode s
   \<or> mode (fst (snd (handle_insert_flow e t s w))) = None"
proof (cases "extract_fields e t s")
  case (Pair err s1)
  have m: "mode s1 = mode s" using extract_fields_mode [of e t s] Pair by simp
  show ?thesis
    using Pair m
    by (auto simp: handle_insert_flow_def Let_def reset_def split: option.splits sum.splits prod.splits)
qed

text \<open>
  C6: when the mode is the return-collection mode at the start of a turn, the coordinator
  does not classify the message: the turn is the field-extraction flow on the stripped
  message, whatever keywords it contains. The mode afterwards is still the collection
  mode or has been reset, and the retriever is not touched. A message such as
  \<open>next Tuesday\<close>, which the classifier would call a forecast request, is read as field
  input.
\<close>

theorem collecting_skips_classification:
  assumes "mode s = Some ''insert_return''"
  shows "handle_message e user_text s w = handle_insert_flow e (strip user_text) s w
       \<and> (mode (fst (snd (handle_message e user_text s w))) = Some ''insert_return''
          \<or> mode (fst (snd (handle_message e user_text s w))) = None)
       \<and> rag (snd (snd (handle_message e user_text s w))) = rag w"
proof -
  have eq: "handle_message e user_text s w = handle_insert_flow e (strip user_text) s w"
    using assms by (simp add: handle_message_def)
  have r: "rag (snd (snd (handle_insert_flow e (strip user_text) s w))) = rag w"
    by (auto simp: handle_insert_flow_def Let_def split: option.splits sum.splits prod.splits)
  show ?thesis
    using eq r handle_insert_flow_mode [of e "strip user_text" s w] assms by auto
qed

theorem collecting_skips_classification_witness:
  "mode collecting_iphone = Some ''insert_return''
   \<and> classify_intent (strip ''next Tuesday'') = ''forecast''
   \<and> handle_message demo_env ''next Tuesday'' collecting_iphone empty_world
       = (Inr (''When did you purchase it? (YYYY-MM-DD or '' @ [CHR 0x27] @ ''last week'' @ [CHR 0x27] @ '')''),
          collecting_iphone\<lparr>pending_return := (pending_return collecting_iphone)\<lparr>store_name := Some ''next Tuesday''\<rparr>\<rparr>,
          empty_world)"
proof -
  have h: "mode collecting_iphone = Some ''insert_return''"
    by (simp add: collecting_iphone_def)
  have c: "classify_intent (strip ''next Tuesday'') = ''forecast''"
    by code_simp
  have ev: "handle_insert_flow demo_env (strip ''next Tuesday'') collecting_iphone empty_world
       = (Inr (''When did you purchase it? (YYYY-MM-DD or '' @ [CHR 0x27] @ ''last week'' @ [CHR 0x27] @ '')''),
          collecting_iphone\<lparr>pending_return := (pending_return collecting_iphone)\<lparr>store_name := Some ''next Tuesday''\<rparr>\<rparr>,
          empty_world)"
    by code_simp
  from collecting_skips_classification [OF h, of demo_env "''next Tuesday''" empty_world] ev c h
  show ?thesis by simp
qed

lemma any_in_iff: "any_in ks t \<longleftrightarrow> (\<exists>k\<in>set ks. sublist k t)"
  by (simp add: any_in_def list_ex_iff contains_iff_sublist)

text \<open>
  C7: the intent is read off the lowercased text by keyword rules in a fixed order, the
  first rule that matches deciding: a forecast keyword (forecast, predict, next) gives
  \<open>forecast\<close>; otherwise an analytics keyword (report, analysis, how many, trend, excel)
  gives \<open>analytics\<close>; otherwise return or refund gives \<open>insert_return\<close>, the
  return-collection mode; otherwise \<open>rag\<close>, the retrieval mode.
\<close>

theorem classify_intent_first_match:
  "classify_intent text =
     (if \<exists>k \<in> {''forecast'', ''predict'', ''next''}. sublist k (lower text) then ''forecast''
      else if \<exists>k \<in> {''report'', ''analysis'', ''how many'', ''trend'', ''excel''}. sublist k (lower text)
        then ''analytics''
      else if \<exists>k \<in> {''return'', ''refund''}. sublist k (lower text) then ''insert_return''
      else ''rag'')"
  unfolding classify_intent_def Let_def any_in_iff by simp

theorem classify_intent_first_match_witness:
  "sublist ''next'' (lower ''What is the TREND for Next week?'')
   \<and> sublist ''trend'' (lower ''What is the TREND for Next week?'')
   \<and> classify_intent ''What is the TREND for Next week?'' = ''forecast''"
proof -
  have a: "sublist ''next'' (lower ''What is the TREND for Next week?'')" by code_simp
  have b: "sublist ''trend'' (lower ''What is the TREND for Next week?'')" by code_simp
  from classify_intent_first_match [of "''What is the TREND for Next week?''"] a b
  show ?thesis by simp
qed

text \<open>
  C4, as the specification states it, fails: a forecast requested over an empty table
  raises, the assignment that resets the mode is not reached, and the session, which was
  updated in place before the dispatch, is left with the mode \<open>forecast\<close>.
\<close>

theorem failed_forecast_keeps_mode:
  "handle_message demo_env ''forecast'' initial_state empty_world
     = (Inl (ValueError ''Not enough data to generate forecast.''),
        initial_state\<lparr>mode := Some ''forecast''\<rparr>, empty_world)
   \<and> mode (fst (snd (handle_message demo_env ''forecast'' initial_state empty_world))) \<noteq> None"
proof -
  have "handle_message demo_env ''forecast'' initial_state empty_world
     = (Inl (ValueError ''Not enough data to generate forecast.''),
        initial_state\<lparr>mode := Some ''forecast''\<rparr>, empty_world)"
    by code_simp
  then show ?thesis by simp
qed

text \<open>
  C4, amended: for every session whose mode is not the return-collection mode, a turn
  dispatched to analytics, forecast or retrieval leaves the session with mode none and
  the pending fields untouched whenever the collaborator call returns; when the call
  fails, the error leaves \<open>handle_message\<close> and the session keeps the mode the message
  was classified as.
\<close>

theorem single_turn_mode:
  assumes "mode s \<noteq> Some ''insert_return''"
    and "classify_intent (strip user_text) \<noteq> ''insert_return''"
  shows "case handle_message e user_text s w of
           (Inr reply, s', w') \<Rightarrow> mode s' = None \<and> pending_return s' = pending_return s
         | (Inl err, s', w') \<Rightarrow>
              mode s' = Some (classify_intent (strip user_text))
            \<and> pending_return s' = pending_return s"
  using assms
  by (simp add: handle_message_def Let_def handle_forecast_def handle_analytics_def
        handle_rag_def split: sum.splits)

theorem single_turn_mode_witness:
  "mode initial_state \<noteq> Some ''insert_return''
   \<and> classify_intent (strip ''weekly report please'') = ''analytics''
   \<and> \<not> isl (fst (handle_message demo_env ''weekly report please'' initial_state empty_world))
   \<and> mode (fst (snd (handle_message demo_env ''weekly report please'' initial_state empty_world))) = None"
proof -
  have h: "mode initial_state \<noteq> Some ''insert_return''" by (simp add: initial_state_def)
  have c: "classify_intent (strip ''weekly report please'') = ''analytics''" by code_simp
  have r: "\<not> isl (fst (handle_message demo_env ''weekly report please'' initial_state empty_world))"
    by code_simp
  from single_turn_mode [OF h, of "''weekly report please''" demo_env empty_world] c r h
  show ?thesis by (auto split: prod.splits sum.splits)
qed

section \<open>Field extraction\<close>

text \<open>Each block of the extraction writes its own field only, and leaves it alone when
  its guard finds the field set.\<close>

lemma extract_product_frame:
  "\<exists>v. extract_product t p = p\<lparr>product_name := v\<rparr>
       \<and> (truthy_str (product_name p) \<longrightarrow> v = product_name p)"
  by (rule exI [of _ "product_name (extract_product t p)"])
     (cases "rx_search product_rx t", auto simp: extract_product_def)

lemma extract_store_frame:
  "\<exists>v. extract_store t p = p\<lparr>store_name := v\<rparr>
       \<and> (truthy_str (store_name p) \<longrightarrow> v = store_name p)"
  by (rule exI [of _ "store_name (extract_store t p)"])
     (cases "rx_search store_rx t", auto simp: extract_store_def)

lemma extract_reason_frame:
  "\<exists>v. extract_reason t p = p\<lparr>reason_raw := v\<rparr>
       \<and> (truthy_str (reason_raw p) \<longrightarrow> v = reason_raw p)"
  by (rule exI [of _ "reason_raw (extract_reason t p)"]) (auto simp: extract_reason_def)

lemma extract_price_frame:
  "\<exists>v c. extract_price t p = p\<lparr>price := v, currency := c\<rparr>
       \<and> (truthy_float (price p) \<and> truthy_str (currency p) \<longrightarrow> v = price p \<and> c = currency p)
       \<and> (rx_search price_rx t = None \<longrightarrow> v = price p \<and> c = currency p)"
  by (rule exI [of _ "price (extract_price t p)"], rule exI [of _ "currency (extract_price t p)"])
     (cases "rx_search price_rx t", auto simp: extract_price_def)

lemma extract_purchase_date_frame:
  "(\<exists>err. extract_purchase_date e t p = Inl err)
   \<or> (\<exists>v. extract_purchase_date e t p = Inr (p\<lparr>purchase_date := v\<rparr>)
          \<and> (purchase_date p \<noteq> None \<longrightarrow> v = purchase_date p))"
proof (cases "extract_purchase_date e t p")
  case (Inl err)
  then show ?thesis by blast
next
  case (Inr q)
  have "q = p\<lparr>purchase_date := purchase_date q\<rparr>
        \<and> (purchase_date p \<noteq> None \<longrightarrow> purchase_date q = purchase_date p)"
    using Inr
    by (cases "rx_search date_rx t")
       (auto simp: extract_purchase_date_def truthy_date_def split: option.splits sum.splits if_splits)
  with Inr show ?thesis by metis
qed

lemma extract_return_date_frame:
  "\<exists>v. extract_return_date e t p = p\<lparr>return_date := v\<rparr>
       \<and> (return_date p \<noteq> None \<longrightarrow> v = return_date p)"
  by (rule exI [of _ "return_date (extract_return_date e t p)"])
     (auto simp: extract_return_date_def truthy_date_def split: option.splits)

lemma extract_fields_shape:
  "\<exists>v1 v2 v3 v4 v5 v6 v7.
     snd (extract_fields e t s) =
       s\<lparr>pending_return := (pending_return s)\<lparr>product_name := v1, store_name := v2,
            reason_raw := v3, price := v4, currency := v5, purchase_date := v6,
            return_date := v7\<rparr>\<rparr>
   \<and> (truthy_str (product_name (pending_return s)) \<longrightarrow> v1 = product_name (pending_return s))
   \<and> (truthy_str (store_name (pending_return s)) \<longrightarrow> v2 = store_name (pending_return s))
   \<and> (truthy_str (reason_raw (pending_return s)) \<longrightarrow> v3 = reason_raw (pending_return s))
   \<and> (truthy_float (price (pending_return s)) \<and> truthy_str (currency (pending_return s))
        \<longrightarrow> v4 = price (pending_return s) \<and> v5 = currency (pending_return s))
   \<and> (rx_search price_rx t = None
        \<longrightarrow> v4 = price (pending_return s) \<and> v5 = currency (pending_return s))
   \<and> (purchase_date (pending_return s) \<noteq> None \<longrightarrow> v6 = purchase_date (pending_return s))
   \<and> (return_date (pending_return s) \<noteq> None \<longrightarrow> v7 = return_date (pending_return s))"
proof -
  define p where "p = pending_return s"
  obtain v1 where 1: "extract_product t p = p\<lparr>product_name := v1\<rparr>"
    and k1: "truthy_str (product_name p) \<longrightarrow> v1 = product_name p"
    using extract_product_frame by blast
  define p1 where "p1 = p\<lparr>product_name := v1\<rparr>"
  obtain v2 where 2: "extract_store t p1 = p1\<lparr>store_name := v2\<rparr>"
    and k2: "truthy_str (store_name p1) \<longrightarrow> v2 = store_name p1"
    using extract_store_frame by blast
  define p2 where "p2 = p1\<lparr>store_name := v2\<rparr>"
  obtain v3 where 3: "extract_reason t p2 = p2\<lparr>reason_raw := v3\<rparr>"
    and k3: "truthy_str (reason_raw p2) \<longrightarrow> v3 = reason_raw p2"
    using extract_reason_frame by blast
  define p3 where "p3 = p2\<lparr>reason_raw := v3\<rparr>"
  obtain v4 v5 where 4: "extract_price t p3 = p3\<lparr>price := v4, currency := v5\<rparr>"
    and k4: "truthy_float (price p3) \<and> truthy_str (currency p3) \<longrightarrow> v4 = price p3 \<and> v5 = currency p3"
    and k4': "rx_search price_rx t = None \<longrightarrow> v4 = price p3 \<and> v5 = currency p3"
    using extract_price_frame by blast
  define p4 where "p4 = p3\<lparr>price := v4, currency := v5\<rparr>"
  have chain: "extract_price t (extract_reason t (extract_store t (extract_product t p))) = p4"
    using 1 2 3 4 by (simp add: p1_def p2_def p3_def p4_def)
  have p4_eq: "p4 = p\<lparr>product_name := v1, store_name := v2, reason_raw := v3, price := v4,
                      currency := v5, purchase_date := purchase_date p, return_date := return_date p\<rparr>"
    by (simp add: p1_def p2_def p3_def p4_def)
  from extract_purchase_date_frame [of e t p4]
  show ?thesis
  proof
    assume "\<exists>err. extract_purchase_date e t p4 = Inl err"
    then obtain err where er: "extract_purchase_date e t p4 = Inl err" by blast
    have "snd (extract_fields e t s) = s\<lparr>pending_return := p4\<rparr>"
      using chain er by (simp add: extract_fields_def p_def Let_def)
    with p4_eq k1 k2 k3 k4 k4' show ?thesis
      unfolding p_def [symmetric]
      apply (rule_tac x = v1 in exI, rule_tac x = v2 in exI, rule_tac x = v3 in exI)
      apply (rule_tac x = v4 in exI, rule_tac x = v5 in exI)
      apply (rule_tac x = "purchase_date p" in exI, rule_tac x = "return_date p" in exI)
      by (simp add: p1_def p2_def p3_def)
  next
    assume "\<exists>v. extract_purchase_date e t p4 = Inr (p4\<lparr>purchase_date := v\<rparr>)
                \<and> (purchase_date p4 \<noteq> None \<longrightarrow> v = purchase_date p4)"
    then obtain v6 where 5: "extract_purchase_date e t p4 = Inr (p4\<lparr>purchase_date := v6\<rparr>)"
      and k5: "purchase_date p4 \<noteq> None \<longrightarrow> v6 = purchase_date p4" by blast
    define p5 where "p5 = p4\<lparr>purchase_date := v6\<rparr>"
    obtain v7 where 6: "extract_return_date e t p5 = p5\<lparr>return_date := v7\<rparr>"
      and k6: "return_date p5 \<noteq> None \<longrightarrow> v7 = return_date p5"
      using extract_return_date_frame by blast
    have "snd (extract_fields e t s) = s\<lparr>pending_return := p5\<lparr>return_date := v7\<rparr>\<rparr>"
      using chain 5 6 by (simp add: extract_fields_def p_def Let_def p5_def)
    with k1 k2 k3 k4 k4' k5 k6 show ?thesis
      unfolding p_def [symmetric]
      apply (rule_tac x = v1 in exI, rule_tac x = v2 in exI, rule_tac x = v3 in exI)
      apply (rule_tac x = v4 in exI, rule_tac x = v5 in exI)
      apply (rule_tac x = v6 in exI, rule_tac x = v7 in exI)
      by (simp add: p1_def p2_def p3_def p4_def p5_def)
  qed
qed

text \<open>
  C3, as the specification states it, fails: the guards test truthiness, not \<open>None\<close>, and
  price and currency share one guard. A pending price of \<open>0.0\<close>, which is not \<open>None\<close>, is
  replaced when a later message carries a number and a currency.
\<close>

theorem zero_price_overwritten:
  "price (pending_return zero_priced) = Some 0
   \<and> price (pending_return (snd (extract_fields demo_env ''50 USD'' zero_priced))) = Some 50
   \<and> price (pending_return (snd (extract_fields demo_env ''50 USD'' zero_priced)))
       \<noteq> price (pending_return zero_priced)"
  by code_simp

text \<open>
  C3, amended: for every session and every message, the extraction pass changes no field
  that was truthy before it (a non-empty string, a non-zero number, a date), where price
  and currency are kept when both are truthy; the four fields the pass never reads
  (product_category, city, country, discount_pct) and the mode are never changed. This
  holds also when the pass raises on an impossible date.
\<close>

theorem extract_fields_keeps_truthy:
  "(truthy_str (product_name (pending_return s))
      \<longrightarrow> product_name (pending_return (snd (extract_fields e t s))) = product_name (pending_return s))
   \<and> (truthy_str (store_name (pending_return s))
      \<longrightarrow> store_name (pending_return (snd (extract_fields e t s))) = store_name (pending_return s))
   \<and> (truthy_str (reason_raw (pending_return s))
      \<longrightarrow> reason_raw (pending_return (snd (extract_fields e t s))) = reason_raw (pending_return s))
   \<and> (truthy_float (price (pending_return s)) \<and> truthy_str (currency (pending_return s))
      \<longrightarrow> price (pending_return (snd (extract_fields e t s))) = price (pending_return s)
        \<and> currency (pending_return (snd (extract_fields e t s))) = currency (pending_return s))
   \<and> (purchase_date (pending_return s) \<noteq> None
      \<longrightarrow> purchase_date (pending_return (snd (extract_fields e t s))) = purchase_date (pending_return s))
   \<and> (return_date (pending_return s) \<noteq> None
      \<longrightarrow> return_date (pending_return (snd (extract_fields e t s))) = return_date (pending_return s))
   \<and> product_category (pending_return (snd (extract_fields e t s))) = product_category (pending_return s)
   \<and> city (pending_return (snd (extract_fields e t s))) = city (pending_return s)
   \<and> country (pending_return (snd (extract_fields e t s))) = country (pending_return s)
   \<and> discount_pct (pending_return (snd (extract_fields e t s))) = discount_pct (pending_return s)
   \<and> mode (snd (extract_fields e t s)) = mode s"
proof -
  from extract_fields_shape [of e t s] obtain v1 v2 v3 v4 v5 v6 v7 where
    sh: "snd (extract_fields e t s) =
       s\<lparr>pending_return := (pending_return s)\<lparr>product_name := v1, store_name := v2,
            reason_raw := v3, price := v4, currency := v5, purchase_date := v6,
            return_date := v7\<rparr>\<rparr>"
    and k: "truthy_str (product_name (pending_return s)) \<longrightarrow> v1 = product_name (pending_return s)"
      "truthy_str (store_name (pending_return s)) \<longrightarrow> v2 = store_name (pending_return s)"
      "truthy_str (reason_raw (pending_return s)) \<longrightarrow> v3 = reason_raw (pending_return s)"
      "truthy_float (price (pending_return s)) \<and> truthy_str (currency (pending_return s))
        \<longrightarrow> v4 = price (pending_return s) \<and> v5 = currency (pending_return s)"
      "purchase_date (pending_return s) \<noteq> None \<longrightarrow> v6 = purchase_date (pending_return s)"
      "return_date (pending_return s) \<noteq> None \<longrightarrow> v7 = return_date (pending_return s)"
    by blast
  show ?thesis unfolding sh using k by simp
qed

theorem extract_fields_keeps_truthy_witness:
  "truthy_str (product_name (pending_return fully_collected))
   \<and> truthy_str (store_name (pending_return fully_collected))
   \<and> truthy_float (price (pending_return fully_collected))
   \<and> truthy_str (currency (pending_return fully_collected))
   \<and> rx_search product_rx ''return my iPad from Walmart, 60 EUR'' = Some [(1, ''iPad from Walmart, 60 EUR'')]
   \<and> product_name (pending_return (snd (extract_fields demo_env ''return my iPad from Walmart, 60 EUR'' fully_collected)))
       = Some ''iPhone''
   \<and> store_name (pending_return (snd (extract_fields demo_env ''return my iPad from Walmart, 60 EUR'' fully_collected)))
       = Some ''Target''
   \<and> price (pending_return (snd (extract_fields demo_env ''return my iPad from Walmart, 60 EUR'' fully_collected)))
       = Some 50
   \<and> currency (pending_return (snd (extract_fields demo_env ''return my iPad from Walmart, 60 EUR'' fully_collected)))
       = Some ''USD''"
proof -
  have t: "truthy_str (product_name (pending_return fully_collected))"
      "truthy_str (store_name (pending_return fully_collected))"
      "truthy_float (price (pending_return fully_collected))"
      "truthy_str (currency (pending_return fully_collected))"
    by (simp_all add: fully_collected_def awaiting_price_def empty_pending_def truthy_str_def
          truthy_float_def)
  have v: "product_name (pending_return fully_collected) = Some ''iPhone''"
      "store_name (pending_return fully_collected) = Some ''Target''"
      "price (pending_return fully_collected) = Some 50"
      "currency (pending_return fully_collected) = Some ''USD''"
    by (simp_all add: fully_collected_def awaiting_price_def empty_pending_def)
  have m: "rx_search product_rx ''return my iPad from Walmart, 60 EUR'' = Some [(1, ''iPad from Walmart, 60 EUR'')]"
    by code_simp
  from extract_fields_keeps_truthy [of fully_collected demo_env "''return my iPad from Walmart, 60 EUR''"] t v m
  show ?thesis by simp
qed

lemma no_price_match_keeps_price:
  assumes "rx_search price_rx t = None"
  shows "price (pending_return (snd (extract_fields e t s))) = price (pending_return s)"
  using extract_fields_shape [of e t s] assms by (elim exE conjE) simp





section \<open>The example conversation\<close>

text \<open>
  C1: from a fresh session the five messages fill one required field per turn, and the
  reply after the first asks for the store. The last turn does not record the return:
  the completion check passes, since \<open>return_date\<close> is not among the fields it requires,
  but the request schema requires it, so building the request fails, the reply is the
  text of the validation error, the session is reset and the table is unchanged.
\<close>

theorem return_dialogue_fails_validation:
  "run_dialogue e return_dialogue initial_state w
     = (Inr [''Which store did you buy it from?'',
             ''When did you purchase it? (YYYY-MM-DD or '' @ [CHR 0x27] @ ''last week'' @ [CHR 0x27] @ '')'',
             ''What is the reason for return?'',
             ''What was the price and currency?'',
             validation_error_str e [''return_date'']],
        initial_state, w)"
  by code_simp

section \<open>The forecaster\<close>










text \<open>A history of one, two and two returns on three days: the mean \<open>5 / 3\<close> and the error
  \<open>4 / 9\<close> come out as the nearest floats, \<open>1.6666666666666667\<close> and \<open>0.4444444444444444\<close>.\<close>

lemma three_days_forecast:
  "load_daily_series three_days = [(739259, 1), (739260, 2), (739261, 2)]
   \<and> forecast e \<lparr>target = ''daily_return_volume'', horizon_days = 2\<rparr> three_days =
       Inr \<lparr>fr_target = ''daily_return_volume'', fr_horizon_days = 2,
            predictions = [\<lparr>fp_date = 739262, predicted_value = 7505999378950827 / 2 ^ 52\<rparr>,
                           \<lparr>fp_date = 739263, predicted_value = 7505999378950827 / 2 ^ 52\<rparr>],
            model_used = ''7-day moving average'', metric = ''MAE'',
            metric_value = 2001599834386887 / 2 ^ 52\<rparr>"
  by code_simp



end
